theory Spec2Isabelle
  imports Complex_Main
begin

section \<open>Data model shared by the strategy modules\<close>

text \<open>
  The strategy modules (\<^verbatim>\<open>src/advanced/twap.py\<close>, \<^verbatim>\<open>grid_orders.py\<close>, \<^verbatim>\<open>oco.py\<close>)
  talk to the exchange through \<^verbatim>\<open>BinanceFuturesClient\<close>. Quantities and prices are
  Python floats; they are modelled as exact reals, so rounding is outside the model.
  Exceptions are values of type \<open>error\<close>; a fallible call returns \<open>error + 'a\<close>.
\<close>

datatype error =
    ValueError string
  | ConnectionError string
  | KeyError string
  | ZeroDivisionError
  | RequestException string

datatype order_type = MARKET | LIMIT | STOP

text \<open>The string literals that the modules assign to a run's \<^verbatim>\<open>'status'\<close> key.\<close>

datatype run_status = ACTIVE | COMPLETED | CANCELLED | FAILED | STOPPED


text \<open>
  The keyword arguments of \<^verbatim>\<open>client.place_order\<close>; \<^verbatim>\<open>timeInForce\<close> is \<^verbatim>\<open>'GTC'\<close>
  at every call site and is left out.
\<close>

record order_request =
  req_symbol :: string
  req_side :: string
  req_type :: order_type
  req_quantity :: real
  req_price :: "real option"
  req_stopPrice :: "real option"

text \<open>
  The JSON object the exchange returns for an order. The keys the modules read are
  \<^verbatim>\<open>orderId\<close>, \<^verbatim>\<open>status\<close>, \<^verbatim>\<open>executedQty\<close> and \<^verbatim>\<open>fills\<close> (pairs of qty and price);
  a key may be absent. Numeric values are taken as already parsed.
\<close>

record order =
  orderId :: "nat option"
  order_status :: "string option"
  executedQty :: "real option"
  fills :: "(real \<times> real) list"

text \<open>The requests a module sends to the exchange, in the order it sends them.\<close>

datatype call =
    TestConnectivity
  | GetSymbolPrice string
  | PlaceOrder order_request
  | GetOrder string nat
  | CancelOrder string "nat option"

text \<open>
  The exchange is an arbitrary environment: each method's reply may depend on the
  requests made so far. \<^verbatim>\<open>test_connectivity\<close> catches its own exceptions and
  returns a boolean; the other methods may raise.
\<close>

record exchange =
  test_connectivity :: "call list \<Rightarrow> bool"
  get_symbol_price :: "call list \<Rightarrow> string \<Rightarrow> error + real"
  place_order :: "call list \<Rightarrow> order_request \<Rightarrow> error + order"
  get_order :: "call list \<Rightarrow> string \<Rightarrow> nat \<Rightarrow> error + order"
  cancel_order :: "call list \<Rightarrow> string \<Rightarrow> nat option \<Rightarrow> error + order"

section \<open>Grid manager\<close>

subsection \<open>Level computation\<close>



subsection \<open>Validator and configuration\<close>

text \<open>\<^verbatim>\<open>Config.MIN_QUANTITY\<close> and \<^verbatim>\<open>Config.MAX_QUANTITY\<close>.\<close>

definition MIN_QUANTITY :: real where
  "MIN_QUANTITY = 1 / 1000"

definition MAX_QUANTITY :: real where
  "MAX_QUANTITY = 1000"

text \<open>
  \<^verbatim>\<open>str.upper\<close> and \<^verbatim>\<open>str.strip\<close> on ASCII text: letters a to z are mapped to
  capitals (the code of a capital is that of the small letter less 32, which clears
  the sixth bit), and the white space that \<^verbatim>\<open>strip\<close> removes at both ends is the
  characters 9 to 13, 28 to 31 and 32.
\<close>

fun upper_char :: "char \<Rightarrow> char" where
  "upper_char (Char b0 b1 b2 b3 b4 b5 b6 b7) =
     (if 97 \<le> (of_char (Char b0 b1 b2 b3 b4 b5 b6 b7) :: nat)
         \<and> (of_char (Char b0 b1 b2 b3 b4 b5 b6 b7) :: nat) \<le> 122
      then Char b0 b1 b2 b3 b4 False b6 b7
      else Char b0 b1 b2 b3 b4 b5 b6 b7)"

definition str_upper :: "string \<Rightarrow> string" where
  "str_upper s = map upper_char s"

definition is_space :: "char \<Rightarrow> bool" where
  "is_space c =
     ((9 \<le> (of_char c :: nat) \<and> (of_char c :: nat) \<le> 13)
      \<or> (28 \<le> (of_char c :: nat) \<and> (of_char c :: nat) \<le> 32))"

definition str_strip :: "string \<Rightarrow> string" where
  "str_strip s = rev (dropWhile is_space (rev (dropWhile is_space s)))"

text \<open>
  \<^verbatim>\<open>SYMBOL_PATTERN = ^[A-Z]{2,10}USDT$\<close>, applied with \<^verbatim>\<open>match\<close> to a string
  that \<^verbatim>\<open>strip\<close> has already freed of trailing white space: two to ten capitals
  followed by \<^verbatim>\<open>USDT\<close> and the end of the string.
\<close>

definition is_capital :: "char \<Rightarrow> bool" where
  "is_capital c = (65 \<le> (of_char c :: nat) \<and> (of_char c :: nat) \<le> 90)"

definition SYMBOL_PATTERN_match :: "string \<Rightarrow> bool" where
  "SYMBOL_PATTERN_match s =
     (6 \<le> length s \<and> length s \<le> 14
      \<and> drop (length s - 4) s = ''USDT''
      \<and> list_all is_capital (take (length s - 4) s))"

definition validate_symbol :: "string \<Rightarrow> bool" where
  "validate_symbol symbol = SYMBOL_PATTERN_match (str_strip (str_upper symbol))"

definition validate_side :: "string \<Rightarrow> bool" where
  "validate_side side = (str_strip (str_upper side) \<in> set [''BUY'', ''SELL''])"

definition validate_quantity :: "real \<Rightarrow> bool" where
  "validate_quantity qty =
     (if qty \<le> 0 then False
      else if qty < MIN_QUANTITY then False
      else if qty > MAX_QUANTITY then False
      else True)"

text \<open>\<^verbatim>\<open>validate_price(price, required=True)\<close>; \<open>None\<close> is Python's \<^verbatim>\<open>None\<close>.\<close>

definition validate_price :: "real option \<Rightarrow> bool" where
  "validate_price price =
     (case price of
        None \<Rightarrow> False
      | Some price_val \<Rightarrow> (if price_val \<le> 0 then False else True))"

subsection \<open>Grid run state\<close>






subsection \<open>Validation\<close>


subsection \<open>Initial placement\<close>





subsection \<open>Starting a grid\<close>


subsection \<open>Loops that mutate the entries of a list\<close>


subsection \<open>Cancelling a grid\<close>



subsection \<open>Stop flag and status query\<close>





subsection \<open>Monitor thread\<close>






subsection \<open>Placement rule and exchanges used in scenarios\<close>



text \<open>
  A mock exchange: it is reachable, quotes a fixed price, numbers each order by the
  count of requests received before it and reports it filled in full at the quoted
  price; it rejects the order placements whose request count \<open>reject_place\<close>
  selects, and every cancellation when \<open>reject_cancel\<close> is set.
\<close>

definition mock_exchange :: "real \<Rightarrow> (nat \<Rightarrow> bool) \<Rightarrow> bool \<Rightarrow> exchange" where
  "mock_exchange price reject_place reject_cancel =
     \<lparr>test_connectivity = (\<lambda>calls. True),
      get_symbol_price = (\<lambda>calls symbol. Inr price),
      place_order = (\<lambda>calls req.
         if reject_place (length calls) then Inl (RequestException ''order rejected'')
         else Inr \<lparr>orderId = Some (length calls), order_status = Some ''NEW'',
                   executedQty = Some (req_quantity req),
                   fills = [(req_quantity req, price)]\<rparr>),
      get_order = (\<lambda>calls symbol oid.
         Inr \<lparr>orderId = Some oid, order_status = Some ''NEW'', executedQty = None, fills = []\<rparr>),
      cancel_order = (\<lambda>calls symbol oid.
         if reject_cancel then Inl (RequestException ''cancel rejected'')
         else Inr \<lparr>orderId = oid, order_status = Some ''CANCELED'', executedQty = None,
                   fills = []\<rparr>)\<rparr>"

subsection \<open>Vocabulary for the effect of cancelling\<close>









section \<open>OCO coordinator\<close>

text \<open>An entry of \<^verbatim>\<open>orders_result['orders']\<close> and the dictionary \<^verbatim>\<open>orders_result\<close>.\<close>

record oco_entry =
  oco_type :: string
  oco_order :: order

record orders_result =
  oco_id :: string
  oco_symbol :: string
  oco_quantity :: real
  oco_orders :: "oco_entry list"

definition validate_oco_order ::
  "string \<Rightarrow> string \<Rightarrow> real \<Rightarrow> real \<Rightarrow> real \<Rightarrow> real \<Rightarrow> bool" where
  "validate_oco_order symbol side quantity take_profit stop_loss stop_limit =
     (if \<not> (validate_symbol symbol \<and> validate_side side \<and> validate_quantity quantity
             \<and> validate_price (Some take_profit) \<and> validate_price (Some stop_loss)
             \<and> validate_price (Some stop_limit))
      then False
      else if side = ''SELL'' then (if take_profit \<ge> stop_loss then False else True)
      else (if take_profit \<le> stop_loss then False else True))"

text \<open>The two requests of \<^verbatim>\<open>_place_simulated_oco\<close>; both go to the side opposite to \<open>side\<close>.\<close>

definition tp_side :: "string \<Rightarrow> string" where
  "tp_side side = (if side = ''BUY'' then ''SELL'' else ''BUY'')"

definition take_profit_request :: "string \<Rightarrow> string \<Rightarrow> real \<Rightarrow> real \<Rightarrow> order_request" where
  "take_profit_request symbol side quantity take_profit =
     \<lparr>req_symbol = symbol, req_side = tp_side side, req_type = LIMIT,
      req_quantity = quantity, req_price = Some take_profit, req_stopPrice = None\<rparr>"

definition stop_loss_request :: "string \<Rightarrow> string \<Rightarrow> real \<Rightarrow> real \<Rightarrow> real \<Rightarrow> order_request" where
  "stop_loss_request symbol side quantity stop_loss stop_limit =
     \<lparr>req_symbol = symbol, req_side = tp_side side, req_type = STOP,
      req_quantity = quantity, req_price = Some stop_limit, req_stopPrice = Some stop_loss\<rparr>"

text \<open>
  \<^verbatim>\<open>_place_simulated_oco\<close>. The handler runs for an exception of either placement. When
  the first order is already in \<^verbatim>\<open>orders_result['orders']\<close> it calls
  \<^verbatim>\<open>cancel_order(symbol, first_order.get('orderId'))\<close> inside its own \<^verbatim>\<open>try\<close> with a
  bare \<^verbatim>\<open>except\<close>, and then re-raises the exception it is handling. \<open>ts\<close> is the
  decimal text of \<^verbatim>\<open>int(time.time())\<close>.
\<close>

definition place_simulated_oco ::
  "exchange \<Rightarrow> string \<Rightarrow> call list \<Rightarrow> string \<Rightarrow> string \<Rightarrow> real \<Rightarrow> real \<Rightarrow> real \<Rightarrow> real
     \<Rightarrow> (error + orders_result) \<times> call list" where
  "place_simulated_oco ex ts calls symbol side quantity take_profit stop_loss stop_limit =
     (let tp_req = take_profit_request symbol side quantity take_profit;
          calls1 = calls @ [PlaceOrder tp_req]
      in case place_order ex calls tp_req of
           Inl e \<Rightarrow> (Inl e, calls1)
         | Inr tp_order \<Rightarrow>
             (let sl_req = stop_loss_request symbol side quantity stop_loss stop_limit;
                  calls2 = calls1 @ [PlaceOrder sl_req]
              in case place_order ex calls1 sl_req of
                   Inl e \<Rightarrow>
                     (let calls3 = calls2 @ [CancelOrder symbol (orderId tp_order)]
                      in case cancel_order ex calls2 symbol (orderId tp_order) of
                           Inl cancel_error \<Rightarrow> (Inl e, calls3)
                         | Inr response \<Rightarrow> (Inl e, calls3))
                 | Inr sl_order \<Rightarrow>
                     (Inr \<lparr>oco_id = ''OCO_'' @ ts, oco_symbol = symbol,
                           oco_quantity = quantity,
                           oco_orders =
                             [\<lparr>oco_type = ''TAKE_PROFIT'', oco_order = tp_order\<rparr>,
                              \<lparr>oco_type = ''STOP_LOSS'', oco_order = sl_order\<rparr>]\<rparr>,
                      calls2)))"

text \<open>
  \<^verbatim>\<open>place_oco_order\<close>. The price fetched for the analysis is only logged, and an
  exception while fetching or analysing it is caught, so only the request is recorded.
  Every exception of the later steps is logged and re-raised unchanged.
\<close>

definition place_oco_order ::
  "exchange \<Rightarrow> string \<Rightarrow> call list \<Rightarrow> string \<Rightarrow> string \<Rightarrow> real \<Rightarrow> real \<Rightarrow> real \<Rightarrow> real option
     \<Rightarrow> (error + orders_result) \<times> call list" where
  "place_oco_order ex ts calls symbol0 side0 quantity take_profit stop_loss stop_limit0 =
     (let symbol = str_strip (str_upper symbol0);
          side = str_strip (str_upper side0);
          stop_limit = (case stop_limit0 of None \<Rightarrow> stop_loss | Some p \<Rightarrow> p)
      in
      if \<not> validate_oco_order symbol side quantity take_profit stop_loss stop_limit
      then (Inl (ValueError ''Invalid OCO order parameters''), calls)
      else if \<not> test_connectivity ex calls
      then (Inl (ConnectionError ''Unable to connect to Binance API''), calls @ [TestConnectivity])
      else place_simulated_oco ex ts (calls @ [TestConnectivity, GetSymbolPrice symbol])
             symbol side quantity take_profit stop_loss stop_limit)"

text \<open>The cancel requests among a sequence of requests.\<close>

fun is_cancel :: "call \<Rightarrow> bool" where
  "is_cancel (CancelOrder symbol oid) = True"
| "is_cancel c = False"

section \<open>TWAP scheduler\<close>

subsection \<open>TWAP run state\<close>

text \<open>
  The dictionary \<^verbatim>\<open>twap_info\<close> (without \<^verbatim>\<open>start_time\<close> and \<^verbatim>\<open>end_time\<close>); \<open>orders\<close>
  holds the exchange replies of the chunks that were placed, and \<open>twap_error\<close> the key
  \<^verbatim>\<open>error\<close> that the failure handler adds.
\<close>

record twap_info =
  twap_id :: string
  twap_symbol :: string
  twap_side :: string
  total_quantity :: real
  chunk_size :: real
  num_chunks :: int
  interval_seconds :: int
  price_limit :: "real option"
  randomize :: bool
  executed_chunks :: nat
  executed_quantity :: real
  total_value :: real
  orders :: "order list"
  twap_status :: run_status
  twap_error :: "string option"

text \<open>
  \<^verbatim>\<open>TWAPOrderManager\<close>, with the run dictionaries in a store as for the grid manager.
\<close>

record twap_manager =
  twap_objects :: "twap_info list"
  active_twap_orders :: "string \<rightharpoonup> nat"
  twap_stop_flags :: "string \<rightharpoonup> bool"

definition new_twap_manager :: twap_manager where
  "new_twap_manager =
     \<lparr>twap_objects = [], active_twap_orders = Map.empty, twap_stop_flags = Map.empty\<rparr>"

subsection \<open>Starting a TWAP run\<close>

definition validate_twap_order :: "string \<Rightarrow> string \<Rightarrow> real \<Rightarrow> int \<Rightarrow> int \<Rightarrow> bool" where
  "validate_twap_order symbol side total_qty n interval =
     (if \<not> (validate_symbol symbol \<and> validate_side side \<and> validate_quantity total_qty)
      then False
      else if n < 2 then False
      else if n > 100 then False
      else if interval < 10 then False
      else if total_qty / real_of_int n < MIN_QUANTITY then False
      else True)"

text \<open>
  \<^verbatim>\<open>place_twap_order\<close>. The current price is fetched for the log only and an
  exception of that request is caught; \<^verbatim>\<open>_validate_price_limit\<close> only warns. The
  worker thread that is started at the end is a separate operation. The result is the
  error raised or the reference to the new run dictionary.
\<close>

definition place_twap_order ::
  "exchange \<Rightarrow> string \<Rightarrow> twap_manager \<times> call list \<Rightarrow> string \<Rightarrow> string \<Rightarrow> real \<Rightarrow> int \<Rightarrow> int
     \<Rightarrow> real option \<Rightarrow> bool \<Rightarrow> (error + nat) \<times> twap_manager \<times> call list" where
  "place_twap_order ex ts s symbol0 side0 total_qty n interval price_limit' randomize' =
     (case s of (m, calls) \<Rightarrow>
      let symbol = str_strip (str_upper symbol0);
          side = str_strip (str_upper side0);
          twap_id' = ''TWAP_'' @ symbol @ ''_'' @ ts
      in
      if \<not> validate_twap_order symbol side total_qty n interval
      then (Inl (ValueError ''Invalid TWAP order parameters''), m, calls)
      else if \<not> test_connectivity ex calls
      then (Inl (ConnectionError ''Unable to connect to Binance API''), m, calls @ [TestConnectivity])
      else
        (let twap_info =
               \<lparr>twap_id = twap_id', twap_symbol = symbol, twap_side = side,
                total_quantity = total_qty, chunk_size = total_qty / real_of_int n,
                num_chunks = n, interval_seconds = interval, price_limit = price_limit',
                randomize = randomize', executed_chunks = 0, executed_quantity = 0,
                total_value = 0, orders = [], twap_status = ACTIVE, twap_error = None\<rparr>;
             r = length (twap_objects m)
         in (Inr r,
             m\<lparr>twap_objects := twap_objects m @ [twap_info],
               active_twap_orders := (active_twap_orders m)(twap_id' \<mapsto> r),
               twap_stop_flags := (twap_stop_flags m)(twap_id' \<mapsto> False)\<rparr>,
             calls @ [TestConnectivity, GetSymbolPrice symbol])))"

subsection \<open>Executing one chunk\<close>

definition market_request :: "string \<Rightarrow> string \<Rightarrow> real \<Rightarrow> order_request" where
  "market_request symbol side quantity =
     \<lparr>req_symbol = symbol, req_side = side, req_type = MARKET, req_quantity = quantity,
      req_price = None, req_stopPrice = None\<rparr>"

text \<open>
  \<^verbatim>\<open>_execute_chunk\<close>: the result is the exception raised, \<open>None\<close> for a chunk skipped
  by the price limit, or the reply to the market order. \<^verbatim>\<open>if price_limit:\<close> is false
  for \<^verbatim>\<open>None\<close> and for zero.
\<close>

definition place_market_chunk ::
  "exchange \<Rightarrow> twap_info \<Rightarrow> real \<Rightarrow> call list \<Rightarrow> (error + order option) \<times> call list" where
  "place_market_chunk ex twap_info quantity calls =
     (let req = market_request (twap_symbol twap_info) (twap_side twap_info) quantity
      in case place_order ex calls req of
           Inl e \<Rightarrow> (Inl e, calls @ [PlaceOrder req])
         | Inr order_result \<Rightarrow> (Inr (Some order_result), calls @ [PlaceOrder req]))"

definition execute_chunk ::
  "exchange \<Rightarrow> twap_info \<Rightarrow> real \<Rightarrow> call list \<Rightarrow> (error + order option) \<times> call list" where
  "execute_chunk ex twap_info quantity calls =
     (case price_limit twap_info of
        None \<Rightarrow> place_market_chunk ex twap_info quantity calls
      | Some limit \<Rightarrow>
          if limit = 0 then place_market_chunk ex twap_info quantity calls
          else
            (case get_symbol_price ex calls (twap_symbol twap_info) of
               Inl e \<Rightarrow> (Inl e, calls @ [GetSymbolPrice (twap_symbol twap_info)])
             | Inr current \<Rightarrow>
                 if (twap_side twap_info = ''BUY'' \<and> current > limit)
                    \<or> (twap_side twap_info = ''SELL'' \<and> current < limit)
                 then (Inr None, calls @ [GetSymbolPrice (twap_symbol twap_info)])
                 else place_market_chunk ex twap_info quantity
                        (calls @ [GetSymbolPrice (twap_symbol twap_info)])))"

subsection \<open>The worker loop\<close>

text \<open>
  The quantity of chunk \<open>chunk_num\<close> (counted from 0): \<^verbatim>\<open>chunk_size\<close>, except that the
  last chunk takes what remains of the total.
\<close>

definition chunk_quantity :: "twap_info \<Rightarrow> nat \<Rightarrow> real" where
  "chunk_quantity twap_info chunk_num =
     (if int chunk_num = num_chunks twap_info - 1
      then total_quantity twap_info - executed_quantity twap_info
      else chunk_size twap_info)"

definition chunk_value :: "order \<Rightarrow> real" where
  "chunk_value chunk_result =
     (if fills chunk_result \<noteq> []
      then sum_list (map (\<lambda>(qty, price). qty * price) (fills chunk_result))
      else 0)"

text \<open>
  The body of the loop of \<^verbatim>\<open>_execute_twap\<close> after the stop check, without the sleep.
  An exception of the chunk is caught and logged and the run state is left as it is; a
  skipped chunk changes nothing either. A reply of the exchange is a non-empty
  dictionary, so \<^verbatim>\<open>if chunk_result:\<close> holds for it.
\<close>

definition twap_iteration :: "exchange \<Rightarrow> nat \<Rightarrow> twap_info \<times> call list \<Rightarrow> twap_info \<times> call list" where
  "twap_iteration ex chunk_num s =
     (case s of (twap_info, calls) \<Rightarrow>
        (let quantity = chunk_quantity twap_info chunk_num
         in case execute_chunk ex twap_info quantity calls of
              (Inl e, calls') \<Rightarrow> (twap_info, calls')
            | (Inr None, calls') \<Rightarrow> (twap_info, calls')
            | (Inr (Some chunk_result), calls') \<Rightarrow>
                (twap_info
                   \<lparr>executed_chunks := executed_chunks twap_info + 1,
                    executed_quantity := executed_quantity twap_info
                      + (case executedQty chunk_result of None \<Rightarrow> quantity | Some q \<Rightarrow> q),
                    total_value := total_value twap_info + chunk_value chunk_result,
                    orders := orders twap_info @ [chunk_result]\<rparr>,
                 calls')))"

text \<open>
  The loop over the chunk numbers. The stop flag is written by another thread;
  \<open>stop_seen chunk_num\<close> is the value the worker reads at the top of iteration
  \<open>chunk_num\<close>. A set flag breaks out of the loop.
\<close>

fun twap_loop ::
  "exchange \<Rightarrow> (nat \<Rightarrow> bool) \<Rightarrow> nat list \<Rightarrow> twap_info \<times> call list \<Rightarrow> twap_info \<times> call list" where
  "twap_loop ex stop_seen [] s = s"
| "twap_loop ex stop_seen (chunk_num # rest) s =
     (if stop_seen chunk_num then s
      else twap_loop ex stop_seen rest (twap_iteration ex chunk_num s))"

text \<open>
  \<^verbatim>\<open>_execute_twap\<close>: the loop, then the status is set to \<^verbatim>\<open>'COMPLETED'\<close>. No statement
  of the loop outside the chunk's own \<^verbatim>\<open>try\<close> raises in this model, so the handler
  that sets \<^verbatim>\<open>'FAILED'\<close> is not entered here; it is a step of the transition system
  below.
\<close>

definition execute_twap ::
  "exchange \<Rightarrow> (nat \<Rightarrow> bool) \<Rightarrow> twap_info \<times> call list \<Rightarrow> twap_info \<times> call list" where
  "execute_twap ex stop_seen s =
     (case twap_loop ex stop_seen [0 ..< nat (num_chunks (fst s))] s of
        (twap_info, calls) \<Rightarrow> (twap_info\<lparr>twap_status := COMPLETED\<rparr>, calls))"

subsection \<open>Stop flag and status query\<close>




subsection \<open>Vocabulary for chunk quantities\<close>





text \<open>
  The scenario of a TWAP run on a mock exchange that fills every order at once at a
  price of 100: BTCUSDT, BUY, total 1 in 4 chunks, 10 seconds apart, no price limit.
\<close>

definition filling_at_100 :: exchange where
  "filling_at_100 = mock_exchange 100 (\<lambda>n. False) False"

definition twap_scenario :: "exchange \<Rightarrow> twap_manager \<times> call list" where
  "twap_scenario ex =
     snd (place_twap_order ex ''1700000000'' (new_twap_manager, [])
            ''BTCUSDT'' ''BUY'' 1 4 10 None False)"

text \<open>
  The readings of a stop flag that is set before the worker reaches the top of
  iteration \<open>j\<close> and not before the top of the one before it.
\<close>

definition stop_from :: "nat \<Rightarrow> nat \<Rightarrow> bool" where
  "stop_from j chunk_num = (j \<le> chunk_num)"

text \<open>A mock exchange that rejects every order placement.\<close>

definition rejecting_orders :: exchange where
  "rejecting_orders = mock_exchange 100 (\<lambda>n. True) False"

subsection \<open>Vocabulary for rejected starts\<close>



section \<open>Workers on the shared store\<close>



subsection \<open>The TWAP manager as a transition system\<close>









subsection \<open>The grid manager as a transition system\<close>














section \<open>Properties of the grid level computation\<close>




section \<open>Initial placement of a grid\<close>












lemma normalise_scenario: "str_strip (str_upper ''BTCUSDT'') = ''BTCUSDT''"
  by code_simp





section \<open>Cancelling all orders of a grid\<close>

















section \<open>Rollback of a half-placed OCO pair\<close>

lemma simulated_oco_rollback:
  assumes tp: "place_order ex calls (take_profit_request symbol side quantity take_profit)
                 = Inr tp_order"
    and sl: "place_order ex (calls @ [PlaceOrder (take_profit_request symbol side quantity take_profit)])
               (stop_loss_request symbol side quantity stop_loss stop_limit) = Inl e"
  shows "place_simulated_oco ex ts calls symbol side quantity take_profit stop_loss stop_limit
     = (Inl e,
        calls @ [PlaceOrder (take_profit_request symbol side quantity take_profit),
                 PlaceOrder (stop_loss_request symbol side quantity stop_loss stop_limit),
                 CancelOrder symbol (orderId tp_order)])"
  using tp sl by (simp add: place_simulated_oco_def Let_def split: sum.splits)

text \<open>
  C3. In a PlaceOCO call that passes validation and the connectivity check, if the
  take-profit placement succeeds and the stop-loss placement raises \<open>e\<close>, the call
  raises \<open>e\<close>, and the requests it has sent after the price query are the two
  placements followed by one cancel request for the take-profit order; that is the only
  cancel request. The exchange is arbitrary, so this holds whether the cancellation
  succeeds or raises.
\<close>

theorem oco_rollback_keeps_original_error:
  assumes valid: "validate_oco_order symbol side quantity take_profit stop_loss stop_limit"
    and norm: "str_strip (str_upper symbol0) = symbol" "str_strip (str_upper side0) = side"
    and lim: "(case stop_limit0 of None \<Rightarrow> stop_loss | Some p \<Rightarrow> p) = stop_limit"
    and conn: "test_connectivity ex calls"
    and tp: "place_order ex (calls @ [TestConnectivity, GetSymbolPrice symbol])
               (take_profit_request symbol side quantity take_profit) = Inr tp_order"
    and sl: "place_order ex
               (calls @ [TestConnectivity, GetSymbolPrice symbol,
                         PlaceOrder (take_profit_request symbol side quantity take_profit)])
               (stop_loss_request symbol side quantity stop_loss stop_limit) = Inl e"
  shows "fst (place_oco_order ex ts calls symbol0 side0 quantity take_profit stop_loss stop_limit0)
           = Inl e
       \<and> snd (place_oco_order ex ts calls symbol0 side0 quantity take_profit stop_loss stop_limit0)
           = calls @ [TestConnectivity, GetSymbolPrice symbol,
                      PlaceOrder (take_profit_request symbol side quantity take_profit),
                      PlaceOrder (stop_loss_request symbol side quantity stop_loss stop_limit),
                      CancelOrder symbol (orderId tp_order)]
       \<and> filter is_cancel
            (drop (length calls)
               (snd (place_oco_order ex ts calls symbol0 side0 quantity take_profit stop_loss
                       stop_limit0)))
           = [CancelOrder symbol (orderId tp_order)]"
proof -
  have r: "place_oco_order ex ts calls symbol0 side0 quantity take_profit stop_loss stop_limit0
      = (Inl e,
         (calls @ [TestConnectivity, GetSymbolPrice symbol])
         @ [PlaceOrder (take_profit_request symbol side quantity take_profit),
            PlaceOrder (stop_loss_request symbol side quantity stop_loss stop_limit),
            CancelOrder symbol (orderId tp_order)])"
    using valid conn simulated_oco_rollback [of ex "calls @ [TestConnectivity, GetSymbolPrice symbol]"
        symbol side quantity take_profit tp_order stop_loss stop_limit e ts] tp sl
    by (simp add: place_oco_order_def norm lim Let_def)
  show ?thesis by (simp add: r)
qed

theorem oco_rollback_keeps_original_error_witness:
  "validate_oco_order ''BTCUSDT'' ''BUY'' (1 / 100) 52000 48000 48000
   \<and> test_connectivity (mock_exchange 50000 (\<lambda>n. n = 3) True) []
   \<and> place_order (mock_exchange 50000 (\<lambda>n. n = 3) True)
        [TestConnectivity, GetSymbolPrice ''BTCUSDT'']
        (take_profit_request ''BTCUSDT'' ''BUY'' (1 / 100) 52000)
      = Inr \<lparr>orderId = Some 2, order_status = Some ''NEW'', executedQty = Some (1 / 100),
             fills = [(1 / 100, 50000)]\<rparr>
   \<and> cancel_order (mock_exchange 50000 (\<lambda>n. n = 3) True)
        [TestConnectivity, GetSymbolPrice ''BTCUSDT'',
         PlaceOrder (take_profit_request ''BTCUSDT'' ''BUY'' (1 / 100) 52000),
         PlaceOrder (stop_loss_request ''BTCUSDT'' ''BUY'' (1 / 100) 48000 48000)]
        ''BTCUSDT'' (Some 2)
      = Inl (RequestException ''cancel rejected'')
   \<and> place_oco_order (mock_exchange 50000 (\<lambda>n. n = 3) True) ''1700000000'' []
        ''btcusdt'' ''buy'' (1 / 100) 52000 48000 None
      = (Inl (RequestException ''order rejected''),
         [TestConnectivity, GetSymbolPrice ''BTCUSDT'',
          PlaceOrder (take_profit_request ''BTCUSDT'' ''BUY'' (1 / 100) 52000),
          PlaceOrder (stop_loss_request ''BTCUSDT'' ''BUY'' (1 / 100) 48000 48000),
          CancelOrder ''BTCUSDT'' (Some 2)])"
proof -
  let ?ex = "mock_exchange 50000 (\<lambda>n. n = 3) True"
  have valid: "validate_oco_order ''BTCUSDT'' ''BUY'' (1 / 100) 52000 48000 48000"
    by code_simp
  have norm: "str_strip (str_upper ''btcusdt'') = ''BTCUSDT''"
      "str_strip (str_upper ''buy'') = ''BUY''"
    by code_simp+
  have lim: "(case None of None \<Rightarrow> 48000 | Some p \<Rightarrow> p) = (48000::real)"
    by simp
  have conn: "test_connectivity ?ex []"
    by (simp add: mock_exchange_def)
  have tp: "place_order ?ex ([] @ [TestConnectivity, GetSymbolPrice ''BTCUSDT''])
        (take_profit_request ''BTCUSDT'' ''BUY'' (1 / 100) 52000)
      = Inr \<lparr>orderId = Some 2, order_status = Some ''NEW'', executedQty = Some (1 / 100),
             fills = [(1 / 100, 50000)]\<rparr>"
    by (simp add: mock_exchange_def take_profit_request_def)
  have sl: "place_order ?ex
        ([] @ [TestConnectivity, GetSymbolPrice ''BTCUSDT'',
               PlaceOrder (take_profit_request ''BTCUSDT'' ''BUY'' (1 / 100) 52000)])
        (stop_loss_request ''BTCUSDT'' ''BUY'' (1 / 100) 48000 48000)
      = Inl (RequestException ''order rejected'')"
    by (simp add: mock_exchange_def)
  have cn: "cancel_order ?ex
        [TestConnectivity, GetSymbolPrice ''BTCUSDT'',
         PlaceOrder (take_profit_request ''BTCUSDT'' ''BUY'' (1 / 100) 52000),
         PlaceOrder (stop_loss_request ''BTCUSDT'' ''BUY'' (1 / 100) 48000 48000)]
        ''BTCUSDT'' (Some 2)
      = Inl (RequestException ''cancel rejected'')"
    by (simp add: mock_exchange_def)
  note r = oco_rollback_keeps_original_error [OF valid norm lim conn tp sl, of "''1700000000''"]
  have "place_oco_order ?ex ''1700000000'' [] ''btcusdt'' ''buy'' (1 / 100) 52000 48000 None
      = (Inl (RequestException ''order rejected''),
         [TestConnectivity, GetSymbolPrice ''BTCUSDT'',
          PlaceOrder (take_profit_request ''BTCUSDT'' ''BUY'' (1 / 100) 52000),
          PlaceOrder (stop_loss_request ''BTCUSDT'' ''BUY'' (1 / 100) 48000 48000),
          CancelOrder ''BTCUSDT'' (Some 2)])"
    using r by (simp add: prod_eq_iff)
  with valid conn tp cn show ?thesis by simp
qed

section \<open>Chunk quantities of a TWAP run\<close>














lemma validate_twap_scenario: "validate_twap_order ''BTCUSDT'' ''BUY'' 1 4 10"
  by code_simp

lemma normalise_buy: "str_strip (str_upper ''BUY'') = ''BUY''"
  by code_simp

lemma twap_scenario_eq:
  "twap_scenario (mock_exchange p rp rc) =
     (\<lparr>twap_objects =
         [\<lparr>twap_id = ''TWAP_BTCUSDT_1700000000'', twap_symbol = ''BTCUSDT'',
           twap_side = ''BUY'', total_quantity = 1, chunk_size = 1 / 4, num_chunks = 4,
           interval_seconds = 10, price_limit = None, randomize = False,
           executed_chunks = 0, executed_quantity = 0, total_value = 0, orders = [],
           twap_status = ACTIVE, twap_error = None\<rparr>],
       active_twap_orders = [''TWAP_BTCUSDT_1700000000'' \<mapsto> 0],
       twap_stop_flags = [''TWAP_BTCUSDT_1700000000'' \<mapsto> False]\<rparr>,
      [TestConnectivity, GetSymbolPrice ''BTCUSDT''])"
  by (simp add: twap_scenario_def place_twap_order_def normalise_scenario normalise_buy
      validate_twap_scenario Let_def mock_exchange_def new_twap_manager_def)



section \<open>Stopping a TWAP run\<close>

lemma twap_loop_until_stop:
  assumes "\<forall>i \<in> set xs. \<not> stop_seen i" and "stop_seen j"
  shows "twap_loop ex stop_seen (xs @ j # ys) s = twap_loop ex (\<lambda>i. False) xs s"
  using assms by (induction xs arbitrary: s) simp_all

lemma upt_split_at: "j < n \<Longrightarrow> [0 ..< n] = [0 ..< j] @ j # [Suc j ..< n]"
  by (metis less_imp_le_nat upt_add_eq_append upt_conv_Cons plus_nat.add_0 le0
      le_add_diff_inverse)

lemma scenario_stopped_run:
  "execute_twap filling_at_100 (stop_from 1)
     (twap_objects (fst (twap_scenario filling_at_100)) ! 0, snd (twap_scenario filling_at_100))
   = (\<lparr>twap_id = ''TWAP_BTCUSDT_1700000000'', twap_symbol = ''BTCUSDT'',
        twap_side = ''BUY'', total_quantity = 1, chunk_size = 1 / 4, num_chunks = 4,
        interval_seconds = 10, price_limit = None, randomize = False,
        executed_chunks = 1, executed_quantity = 1 / 4, total_value = 25,
        orders = [\<lparr>orderId = Some 2, order_status = Some ''NEW'',
                   executedQty = Some (1 / 4), fills = [(1 / 4, 100)]\<rparr>],
        twap_status = COMPLETED, twap_error = None\<rparr>,
      [TestConnectivity, GetSymbolPrice ''BTCUSDT'',
       PlaceOrder (market_request ''BTCUSDT'' ''BUY'' (1 / 4))])"
  unfolding filling_at_100_def twap_scenario_eq
  by (simp add: execute_twap_def upt_rec stop_from_def twap_iteration_def chunk_quantity_def
      execute_chunk_def place_market_chunk_def market_request_def mock_exchange_def
      chunk_value_def Let_def)

text \<open>
  C1 as stated fails in its first part. In the scenario run of 4 chunks the stop flag
  is seen at the top of the second iteration, after one chunk; the worker sends nothing
  more, and the final status is COMPLETED.
\<close>

theorem stopped_run_is_completed:
  "stop_from 1 1
   \<and> \<not> stop_from 1 0
   \<and> num_chunks (twap_objects (fst (twap_scenario filling_at_100)) ! 0) = 4
   \<and> twap_status (fst (execute_twap filling_at_100 (stop_from 1)
        (twap_objects (fst (twap_scenario filling_at_100)) ! 0,
         snd (twap_scenario filling_at_100))))
       = COMPLETED
   \<and> executed_chunks (fst (execute_twap filling_at_100 (stop_from 1)
        (twap_objects (fst (twap_scenario filling_at_100)) ! 0,
         snd (twap_scenario filling_at_100))))
       = 1"
  unfolding scenario_stopped_run
  unfolding filling_at_100_def twap_scenario_eq
  by (simp add: stop_from_def)

text \<open>
  C1 as amended. When the stop flag is first seen at the top of iteration \<open>j\<close>,
  before all \<open>n\<close> chunks have been processed, the worker leaves the loop at once: the
  requests sent and the run state are those reached after the first \<open>j\<close> iterations,
  so no child order is submitted after the flag is seen, and the only further change
  is that the status is set to COMPLETED, as for a run that was not stopped.
\<close>

theorem stop_ends_run_as_completed:
  assumes n: "num_chunks ti = int n" and j: "j < n"
    and seen: "stop_seen j" and first: "\<forall>i < j. \<not> stop_seen i"
  shows "snd (execute_twap ex stop_seen (ti, calls))
           = snd (twap_loop ex (\<lambda>i. False) [0 ..< j] (ti, calls))
       \<and> fst (execute_twap ex stop_seen (ti, calls))
           = (fst (twap_loop ex (\<lambda>i. False) [0 ..< j] (ti, calls)))\<lparr>twap_status := COMPLETED\<rparr>
       \<and> twap_status (fst (execute_twap ex stop_seen (ti, calls))) = COMPLETED"
proof -
  have sp: "[0 ..< n] = [0 ..< j] @ j # [Suc j ..< n]"
    using j by (rule upt_split_at)
  have nost: "\<forall>i \<in> set [0 ..< j]. \<not> stop_seen i"
    using first by simp
  have "twap_loop ex stop_seen [0 ..< n] (ti, calls)
          = twap_loop ex (\<lambda>i. False) [0 ..< j] (ti, calls)"
    unfolding sp using nost seen by (rule twap_loop_until_stop)
  then show ?thesis
    by (simp add: execute_twap_def n split_beta)
qed

theorem stop_ends_run_as_completed_witness:
  "num_chunks (twap_objects (fst (twap_scenario filling_at_100)) ! 0) = int 4
   \<and> (1::nat) < 4 \<and> stop_from 1 1 \<and> \<not> stop_from 1 0
   \<and> snd (execute_twap filling_at_100 (stop_from 1)
        (twap_objects (fst (twap_scenario filling_at_100)) ! 0,
         snd (twap_scenario filling_at_100)))
       = snd (twap_loop filling_at_100 (\<lambda>i. False) [0 ..< 1]
        (twap_objects (fst (twap_scenario filling_at_100)) ! 0,
         snd (twap_scenario filling_at_100)))
   \<and> twap_status (fst (execute_twap filling_at_100 (stop_from 1)
        (twap_objects (fst (twap_scenario filling_at_100)) ! 0,
         snd (twap_scenario filling_at_100))))
       = COMPLETED"
proof -
  let ?ti = "twap_objects (fst (twap_scenario filling_at_100)) ! 0"
  have n: "num_chunks ?ti = int 4"
    unfolding filling_at_100_def twap_scenario_eq by simp
  have j: "(1::nat) < 4" by simp
  have seen: "stop_from 1 1" by (simp add: stop_from_def)
  have first: "\<forall>i < 1. \<not> stop_from 1 i" by (simp add: stop_from_def)
  have nf: "\<not> stop_from 1 0" by (simp add: stop_from_def)
  show ?thesis
    using stop_ends_run_as_completed [OF n j seen first, of filling_at_100
        "snd (twap_scenario filling_at_100)"] n seen nf
    by simp
qed

section \<open>A failing chunk of a TWAP run\<close>

lemma execute_twap_status:
  "twap_status (fst (execute_twap ex stop_seen s)) = COMPLETED"
  by (simp add: execute_twap_def split_beta)

lemma all_chunks_rejected:
  "execute_twap rejecting_orders (\<lambda>i. False)
     (twap_objects (fst (twap_scenario rejecting_orders)) ! 0,
      snd (twap_scenario rejecting_orders))
   = ((twap_objects (fst (twap_scenario rejecting_orders)) ! 0)\<lparr>twap_status := COMPLETED\<rparr>,
      snd (twap_scenario rejecting_orders)
      @ [PlaceOrder (market_request ''BTCUSDT'' ''BUY'' (1 / 4)),
         PlaceOrder (market_request ''BTCUSDT'' ''BUY'' (1 / 4)),
         PlaceOrder (market_request ''BTCUSDT'' ''BUY'' (1 / 4)),
         PlaceOrder (market_request ''BTCUSDT'' ''BUY'' 1)])"
  unfolding rejecting_orders_def twap_scenario_eq
  by (simp add: execute_twap_def upt_rec twap_iteration_def chunk_quantity_def
      execute_chunk_def place_market_chunk_def market_request_def mock_exchange_def Let_def)

text \<open>
  C5 as stated fails in its first and last parts. In the scenario run on an exchange
  that rejects every order, four market orders are sent and each raises; the run goes
  on to the end, but no child-order record is appended and the final status is
  COMPLETED with no error recorded: the final state is the initial one but for the
  status.
\<close>

theorem chunk_failure_leaves_no_record:
  "place_order rejecting_orders (snd (twap_scenario rejecting_orders))
      (market_request ''BTCUSDT'' ''BUY'' (1 / 4))
     = Inl (RequestException ''order rejected'')
   \<and> snd (execute_twap rejecting_orders (\<lambda>i. False)
        (twap_objects (fst (twap_scenario rejecting_orders)) ! 0,
         snd (twap_scenario rejecting_orders)))
     = snd (twap_scenario rejecting_orders)
       @ [PlaceOrder (market_request ''BTCUSDT'' ''BUY'' (1 / 4)),
          PlaceOrder (market_request ''BTCUSDT'' ''BUY'' (1 / 4)),
          PlaceOrder (market_request ''BTCUSDT'' ''BUY'' (1 / 4)),
          PlaceOrder (market_request ''BTCUSDT'' ''BUY'' 1)]
   \<and> orders (fst (execute_twap rejecting_orders (\<lambda>i. False)
        (twap_objects (fst (twap_scenario rejecting_orders)) ! 0,
         snd (twap_scenario rejecting_orders))))
     = []
   \<and> twap_status (fst (execute_twap rejecting_orders (\<lambda>i. False)
        (twap_objects (fst (twap_scenario rejecting_orders)) ! 0,
         snd (twap_scenario rejecting_orders))))
     = COMPLETED
   \<and> twap_error (fst (execute_twap rejecting_orders (\<lambda>i. False)
        (twap_objects (fst (twap_scenario rejecting_orders)) ! 0,
         snd (twap_scenario rejecting_orders))))
     = None"
  unfolding all_chunks_rejected
  unfolding rejecting_orders_def twap_scenario_eq
  by (simp add: mock_exchange_def)

text \<open>
  C5 as amended. When the execution of a chunk raises, the error is caught: the
  iteration leaves the run state as it was (nothing is appended to the orders and no
  counter changes) and only the requests sent are on record; the worker goes on with
  the next chunk from that state, and the run ends with status COMPLETED.
\<close>

theorem chunk_failure_is_tolerated:
  assumes "execute_chunk ex ti (chunk_quantity ti k) calls = (Inl e, calls')"
  shows "twap_iteration ex k (ti, calls) = (ti, calls')
       \<and> (\<not> stop_seen k \<longrightarrow>
            twap_loop ex stop_seen (k # rest) (ti, calls)
              = twap_loop ex stop_seen rest (ti, calls'))
       \<and> twap_status (fst (execute_twap ex stop_seen (ti, calls))) = COMPLETED"
proof -
  have it: "twap_iteration ex k (ti, calls) = (ti, calls')"
    using assms by (simp add: twap_iteration_def Let_def)
  show ?thesis
    using it execute_twap_status [of ex stop_seen "(ti, calls)"] by simp
qed

theorem chunk_failure_is_tolerated_witness:
  "execute_chunk rejecting_orders (twap_objects (fst (twap_scenario rejecting_orders)) ! 0)
       (chunk_quantity (twap_objects (fst (twap_scenario rejecting_orders)) ! 0) 0)
       (snd (twap_scenario rejecting_orders))
     = (Inl (RequestException ''order rejected''),
        snd (twap_scenario rejecting_orders)
        @ [PlaceOrder (market_request ''BTCUSDT'' ''BUY'' (1 / 4))])
   \<and> twap_iteration rejecting_orders 0
        (twap_objects (fst (twap_scenario rejecting_orders)) ! 0,
         snd (twap_scenario rejecting_orders))
     = (twap_objects (fst (twap_scenario rejecting_orders)) ! 0,
        snd (twap_scenario rejecting_orders)
        @ [PlaceOrder (market_request ''BTCUSDT'' ''BUY'' (1 / 4))])
   \<and> twap_loop rejecting_orders (\<lambda>i. False) [0, 1]
        (twap_objects (fst (twap_scenario rejecting_orders)) ! 0,
         snd (twap_scenario rejecting_orders))
     = twap_loop rejecting_orders (\<lambda>i. False) [1]
        (twap_objects (fst (twap_scenario rejecting_orders)) ! 0,
         snd (twap_scenario rejecting_orders)
         @ [PlaceOrder (market_request ''BTCUSDT'' ''BUY'' (1 / 4))])"
proof -
  let ?ti = "twap_objects (fst (twap_scenario rejecting_orders)) ! 0"
  let ?calls = "snd (twap_scenario rejecting_orders)"
  have e: "execute_chunk rejecting_orders ?ti (chunk_quantity ?ti 0) ?calls
     = (Inl (RequestException ''order rejected''),
        ?calls @ [PlaceOrder (market_request ''BTCUSDT'' ''BUY'' (1 / 4))])"
    unfolding rejecting_orders_def twap_scenario_eq
    by (simp add: chunk_quantity_def execute_chunk_def place_market_chunk_def
        market_request_def mock_exchange_def Let_def)
  show ?thesis
    using e chunk_failure_is_tolerated [OF e, of "\<lambda>i. False" "[1]"] by simp
qed

section \<open>Rejected starts leave no trace\<close>





section \<open>Status values and status transitions of runs\<close>












































section \<open>What a status query returns\<close>






end
